theory Spec2Isabelle
  imports Complex_Main "HOL-Library.AList"
begin

section \<open>The provider response\<close>

text \<open>
  The program reads the OCR provider's response, a JSON object whose \<open>Blocks\<close> array holds
  one dictionary per recognised unit. The keys every block carries (\<open>BlockType\<close>, \<open>Id\<close>)
  are plain fields; a key the code reads with \<open>.get\<close>, or that the provider leaves out for
  some block types (\<open>Page\<close>, \<open>Confidence\<close>, \<open>Text\<close>, \<open>TextType\<close>, \<open>Geometry\<close>,
  \<open>Relationships\<close>, and \<open>Ids\<close> inside a relationship), is optional, and \<open>None\<close> means
  that the key is absent. JSON numbers are exact rationals here: the rounding of binary floating
  point is not part of this model. The field \<open>Id\<close> is written \<open>BlockId\<close>.
\<close>

record bounding_box =
  Left :: rat
  Top :: rat
  Width :: rat
  Height :: rat

record point =
  X :: rat
  Y :: rat

record geometry =
  BoundingBox :: bounding_box
  Polygon :: "point list"

record relationship =
  Type :: "string option"
  Ids :: "string list option"

record block =
  BlockType :: string
  BlockId :: string
  Page :: "int option"
  Confidence :: "rat option"
  Text :: "string option"
  TextType :: "string option"
  Geometry :: "geometry option"
  Relationships :: "relationship list option"

record textract_result =
  Blocks :: "block list"

text \<open>What the code raises: a missing dictionary key, or an index out of range.\<close>

datatype error = KeyError string | IndexError

section \<open>The parsed tree\<close>

text \<open>
  \<open>parse_block\<close> builds one dictionary per line, and inside it one dictionary per word,
  keyed by the word's identifier. Python dictionaries keep insertion order, and storing under
  a key that is already there replaces the value where it stands: an association list with
  \<open>AList.update\<close>.
\<close>

record word_data =
  word_BlockType :: string
  word_Confidence :: rat
  word_Text :: string
  word_TextType :: "string option"
  word_BoundingBox :: bounding_box
  word_Polygon :: "point list"

record block_data =
  line_BlockType :: string
  line_Confidence :: rat
  line_Text :: string
  line_BoundingBox :: bounding_box
  line_Polygon :: "point list"
  Words :: "(string \<times> word_data) list"

type_synonym lines = "(string \<times> block_data) list"
type_synonym result_data = "(int \<times> lines) list"

section \<open>Block lookup\<close>

text \<open>\<open>get_block_by_id\<close>: the first block of the response with the identifier, or \<open>None\<close>.\<close>

fun find_block :: "block list \<Rightarrow> string \<Rightarrow> block option" where
  "find_block [] block_id = None"
| "find_block (b # bs) block_id = (if BlockId b = block_id then Some b else find_block bs block_id)"

definition get_block_by_id :: "textract_result \<Rightarrow> string \<Rightarrow> block option" where
  "get_block_by_id result block_id = find_block (Blocks result) block_id"

section \<open>Parsing one line\<close>

text \<open>The list comprehension that copies the polygon, point by point.\<close>

definition copy_polygon :: "point list \<Rightarrow> point list" where
  "copy_polygon ps = map (\<lambda>p. \<lparr>X = X p, Y = Y p\<rparr>) ps"

text \<open>The dictionary stored for a word that was found; its entries are evaluated in order.\<close>

definition word_entry :: "block \<Rightarrow> error + word_data" where
  "word_entry word_block =
     (case Confidence word_block of
        None \<Rightarrow> Inl (KeyError ''Confidence'')
      | Some c \<Rightarrow>
     (case Text word_block of
        None \<Rightarrow> Inl (KeyError ''Text'')
      | Some t \<Rightarrow>
     (case Geometry word_block of
        None \<Rightarrow> Inl (KeyError ''Geometry'')
      | Some g \<Rightarrow>
          Inr \<lparr>word_BlockType = BlockType word_block, word_Confidence = c, word_Text = t,
               word_TextType = TextType word_block, word_BoundingBox = BoundingBox g,
               word_Polygon = copy_polygon (Polygon g)\<rparr>)))"

text \<open>
  The expression \<open>block.get("Relationships", [{}])[0].get("Ids", [])\<close>: the default is a
  list holding one empty dictionary; indexing an empty list raises.
\<close>

definition first_group_ids :: "block \<Rightarrow> error + string list" where
  "first_group_ids block =
     (case (case Relationships block of None \<Rightarrow> [\<lparr>Type = None, Ids = None\<rparr>] | Some rs \<Rightarrow> rs) of
        [] \<Rightarrow> Inl IndexError
      | g # _ \<Rightarrow> Inr (case Ids g of None \<Rightarrow> [] | Some ids \<Rightarrow> ids))"

text \<open>
  The loop over the word identifiers; \<open>words\<close> is \<open>block_data["Words"]\<close> so far. A block
  is a dictionary with keys, hence true in \<open>if word_block:\<close>; the test fails for \<open>None\<close>
  only.
\<close>

fun parse_words :: "textract_result \<Rightarrow> string list \<Rightarrow> (string \<times> word_data) list
    \<Rightarrow> error + (string \<times> word_data) list" where
  "parse_words result [] words = Inr words"
| "parse_words result (word_id # ids) words =
     (case get_block_by_id result word_id of
        None \<Rightarrow> parse_words result ids words
      | Some word_block \<Rightarrow>
          (case word_entry word_block of
             Inl e \<Rightarrow> Inl e
           | Inr w \<Rightarrow> parse_words result ids (AList.update word_id w words)))"

definition parse_block :: "block \<Rightarrow> textract_result \<Rightarrow> error + block_data" where
  "parse_block block result =
     (case Confidence block of
        None \<Rightarrow> Inl (KeyError ''Confidence'')
      | Some c \<Rightarrow>
     (case Text block of
        None \<Rightarrow> Inl (KeyError ''Text'')
      | Some t \<Rightarrow>
     (case Geometry block of
        None \<Rightarrow> Inl (KeyError ''Geometry'')
      | Some g \<Rightarrow>
     (case first_group_ids block of
        Inl e \<Rightarrow> Inl e
      | Inr ids \<Rightarrow>
     (case parse_words result ids [] of
        Inl e \<Rightarrow> Inl e
      | Inr ws \<Rightarrow>
          Inr \<lparr>line_BlockType = BlockType block, line_Confidence = c, line_Text = t,
               line_BoundingBox = BoundingBox g, line_Polygon = copy_polygon (Polygon g),
               Words = ws\<rparr>)))))"

section \<open>Parsing the response\<close>

text \<open>\<open>block.get("Page", 1)\<close>.\<close>

definition page_number :: "block \<Rightarrow> int" where
  "page_number block = (case Page block of None \<Rightarrow> 1 | Some p \<Rightarrow> p)"

text \<open>
  The body of the loop of \<open>parse_results\<close>. A PAGE block stores an empty dictionary under
  its page number. A LINE block creates the page when it is not there, parses the line, and
  stores it in the page's dictionary. Any other block is passed over. The line is parsed
  before \<open>result_data[page_number]\<close> is read; that read finds the page, which the lines
  before have made sure of, and its \<open>KeyError\<close> is a branch no input reaches.
\<close>

definition parse_results_step :: "textract_result \<Rightarrow> result_data \<Rightarrow> block \<Rightarrow> error + result_data" where
  "parse_results_step result rd block =
     (if BlockType block = ''PAGE'' then
        Inr (AList.update (page_number block) [] rd)
      else if BlockType block = ''LINE'' then
        (let p = page_number block;
             rd1 = (if p \<notin> fst ` set rd then AList.update p [] rd else rd)
         in case parse_block block result of
              Inl e \<Rightarrow> Inl e
            | Inr bd \<Rightarrow>
                (case map_of rd1 p of
                   None \<Rightarrow> Inl (KeyError ''page_number'')
                 | Some ls \<Rightarrow> Inr (AList.update p (AList.update (BlockId block) bd ls) rd1)))
      else Inr rd)"

fun parse_results_loop :: "textract_result \<Rightarrow> block list \<Rightarrow> result_data \<Rightarrow> error + result_data" where
  "parse_results_loop result [] rd = Inr rd"
| "parse_results_loop result (block # blocks) rd =
     (case parse_results_step result rd block of
        Inl e \<Rightarrow> Inl e
      | Inr rd' \<Rightarrow> parse_results_loop result blocks rd')"

definition parse_results :: "textract_result \<Rightarrow> error + result_data" where
  "parse_results result = parse_results_loop result (Blocks result) []"

section \<open>Rendering\<close>













section \<open>The transcript\<close>

text \<open>\<open>sep.join\<close>: the separator stands between two consecutive strings only.\<close>

fun join :: "string \<Rightarrow> string list \<Rightarrow> string" where
  "join sep [] = []"
| "join sep [x] = x"
| "join sep (x # y # ys) = x @ sep @ join sep (y # ys)"

text \<open>The generator of \<open>get_transcript\<close>: the text of each LINE block, in the order of the list.\<close>

fun line_texts :: "block list \<Rightarrow> error + string list" where
  "line_texts [] = Inr []"
| "line_texts (block # blocks) =
     (if BlockType block = ''LINE'' then
        (case Text block of
           None \<Rightarrow> Inl (KeyError ''Text'')
         | Some t \<Rightarrow> (case line_texts blocks of Inl e \<Rightarrow> Inl e | Inr ts \<Rightarrow> Inr (t # ts)))
      else line_texts blocks)"

definition get_transcript :: "textract_result \<Rightarrow> error + string" where
  "get_transcript result =
     (case line_texts (Blocks result) of
        Inl e \<Rightarrow> Inl e
      | Inr ts \<Rightarrow> Inr (join [CHR 0x0A] ts))"

section \<open>A sample response\<close>

text \<open>
  One page, one line and its one word, with the geometry and the confidences of the
  round-trip scenario: the box \<open>{Left: 0.1, Top: 0.2, Width: 0.3, Height: 0.05}\<close>, the line's
  confidence 98.7, the word's 99.4. The PAGE block has no text and no confidence, as the
  provider sends it.
\<close>

definition sample_box :: bounding_box where
  "sample_box = \<lparr>Left = 1 / 10, Top = 1 / 5, Width = 3 / 10, Height = 1 / 20\<rparr>"

definition sample_geometry :: geometry where
  "sample_geometry =
     \<lparr>BoundingBox = sample_box,
      Polygon = [\<lparr>X = 1 / 10, Y = 1 / 5\<rparr>, \<lparr>X = 2 / 5, Y = 1 / 5\<rparr>,
                 \<lparr>X = 2 / 5, Y = 1 / 4\<rparr>, \<lparr>X = 1 / 10, Y = 1 / 4\<rparr>]\<rparr>"

definition sample_page :: block where
  "sample_page =
     \<lparr>BlockType = ''PAGE'', BlockId = ''p1'', Page = Some 1, Confidence = None, Text = None,
      TextType = None, Geometry = Some sample_geometry,
      Relationships = Some [\<lparr>Type = Some ''CHILD'', Ids = Some [''l1'']\<rparr>]\<rparr>"

definition sample_line :: block where
  "sample_line =
     \<lparr>BlockType = ''LINE'', BlockId = ''l1'', Page = Some 1, Confidence = Some (987 / 10),
      Text = Some ''Hello'', TextType = None, Geometry = Some sample_geometry,
      Relationships = Some [\<lparr>Type = Some ''CHILD'', Ids = Some [''w1'']\<rparr>]\<rparr>"

definition sample_word :: block where
  "sample_word =
     \<lparr>BlockType = ''WORD'', BlockId = ''w1'', Page = Some 1, Confidence = Some (497 / 5),
      Text = Some ''Hello'', TextType = Some ''PRINTED'', Geometry = Some sample_geometry,
      Relationships = None\<rparr>"

definition sample_result :: textract_result where
  "sample_result = \<lparr>Blocks = [sample_page, sample_line, sample_word]\<rparr>"

lemmas sample_defs =
  sample_box_def sample_geometry_def sample_page_def sample_line_def sample_word_def
  sample_result_def

text \<open>The sample line with a reference to a word the response does not hold, before its own word.\<close>

definition two_refs_line :: block where
  "two_refs_line = sample_line\<lparr>Relationships :=
      Some [\<lparr>Type = Some ''CHILD'', Ids = Some [''w0'', ''w1'']\<rparr>]\<rparr>"

text \<open>
  The sample line with a second relationship group, whose identifier \<open>w2\<close> names a block of
  the response \<open>two_groups_result\<close>.
\<close>

definition two_groups_line :: block where
  "two_groups_line = sample_line\<lparr>Relationships :=
      Some [\<lparr>Type = Some ''CHILD'', Ids = Some [''w1'']\<rparr>,
            \<lparr>Type = Some ''CHILD'', Ids = Some [''w2'']\<rparr>]\<rparr>"

definition two_groups_result :: textract_result where
  "two_groups_result =
     \<lparr>Blocks = [sample_page, two_groups_line, sample_word, sample_word\<lparr>BlockId := ''w2''\<rparr>]\<rparr>"


section \<open>From the response to the document\<close>


section \<open>The specification's words\<close>







text \<open>A response that lists a line before the PAGE block of its page.\<close>

definition line_first_result :: textract_result where
  "line_first_result = \<lparr>Blocks = [sample_line, sample_word, sample_page]\<rparr>"




section \<open>Facts about the lookup and the two loops\<close>

lemma find_block_None_iff: "find_block bs i = None \<longleftrightarrow> i \<notin> BlockId ` set bs"
  by (induction bs) auto


lemma keys_update: "fst ` set (AList.update k v al) = insert k (fst ` set al)"
  by (induction al) auto

lemma parse_words_removeAll:
  "get_block_by_id result wid = None \<Longrightarrow>
   parse_words result (removeAll wid ids) ws = parse_words result ids ws"
  by (induction ids arbitrary: ws) (auto split: option.splits sum.splits)

lemma parse_words_keys:
  "parse_words result ids ws = Inr ws' \<Longrightarrow>
   fst ` set ws' \<subseteq> fst ` set ws \<union> {w \<in> set ids. get_block_by_id result w \<noteq> None}"
proof (induction ids arbitrary: ws)
  case Nil
  then show ?case by simp
next
  case (Cons i ids)
  show ?case
  proof (cases "get_block_by_id result i")
    case None
    with Cons.prems have "parse_words result ids ws = Inr ws'" by simp
    from Cons.IH [OF this] show ?thesis by auto
  next
    case (Some wb)
    with Cons.prems obtain wd where wd: "word_entry wb = Inr wd"
      and rest: "parse_words result ids (AList.update i wd ws) = Inr ws'"
      by (auto split: sum.splits)
    from Cons.IH [OF rest] Some show ?thesis by (auto simp: keys_update)
  qed
qed

lemma parse_words_other:
  "parse_words result ids ws = Inr ws' \<Longrightarrow> w \<notin> set ids \<or> get_block_by_id result w = None \<Longrightarrow>
   map_of ws' w = map_of ws w"
proof (induction ids arbitrary: ws)
  case Nil
  then show ?case by simp
next
  case (Cons i ids)
  show ?case
  proof (cases "get_block_by_id result i")
    case None
    with Cons.prems have "parse_words result ids ws = Inr ws'" by simp
    from Cons.IH [OF this] Cons.prems(2) show ?thesis by auto
  next
    case (Some wb)
    with Cons.prems obtain wd where wd: "word_entry wb = Inr wd"
      and rest: "parse_words result ids (AList.update i wd ws) = Inr ws'"
      by (auto split: sum.splits)
    from Cons.prems(2) Some have ne: "w \<noteq> i" by auto
    from Cons.prems(2) have "w \<notin> set ids \<or> get_block_by_id result w = None" by auto
    from Cons.IH [OF rest this] ne show ?thesis by (simp add: update_conv')
  qed
qed

lemma parse_words_resolved:
  "parse_words result ids ws = Inr ws' \<Longrightarrow> w \<in> set ids \<Longrightarrow> get_block_by_id result w = Some wb \<Longrightarrow>
   \<exists>wd. word_entry wb = Inr wd \<and> map_of ws' w = Some wd"
proof (induction ids arbitrary: ws)
  case Nil
  then show ?case by simp
next
  case (Cons i ids)
  show ?case
  proof (cases "get_block_by_id result i")
    case None
    with Cons.prems have "parse_words result ids ws = Inr ws'" and "w \<in> set ids" by auto
    from Cons.IH [OF this Cons.prems(3)] show ?thesis .
  next
    case (Some ib)
    with Cons.prems obtain wd where wd: "word_entry ib = Inr wd"
      and rest: "parse_words result ids (AList.update i wd ws) = Inr ws'"
      by (auto split: sum.splits)
    show ?thesis
    proof (cases "w \<in> set ids")
      case True
      from Cons.IH [OF rest True Cons.prems(3)] show ?thesis .
    next
      case False
      with Cons.prems(2) have "w = i" by simp
      with Some Cons.prems(3) have "ib = wb" by simp
      from parse_words_other [OF rest, of w] False
      have "map_of ws' w = map_of (AList.update i wd ws) w" by simp
      with \<open>w = i\<close> \<open>ib = wb\<close> wd show ?thesis by (simp add: update_conv')
    qed
  qed
qed

lemma parse_block_InrD:
  "parse_block block result = Inr bd \<Longrightarrow>
   \<exists>ids. first_group_ids block = Inr ids \<and> parse_words result ids [] = Inr (Words bd)"
  by (auto simp: parse_block_def split: option.splits sum.splits)

lemma parse_block_Page [simp]:
  "parse_block (block\<lparr>Page := p\<rparr>) result = parse_block block result"
  by (simp add: parse_block_def first_group_ids_def split: option.splits sum.splits list.splits)


lemma loop_fails:
  "b \<in> set bs \<Longrightarrow> (\<And>rd. \<exists>e. parse_results_step result rd b = Inl e) \<Longrightarrow>
   \<exists>e. parse_results_loop result bs rd = Inl e"
proof (induction bs arbitrary: rd)
  case Nil
  then show ?case by simp
next
  case (Cons a bs)
  show ?case
  proof (cases "parse_results_step result rd a")
    case (Inl e)
    then show ?thesis by simp
  next
    case (Inr rd')
    with Cons.prems(2) [of rd] have "a \<noteq> b" by auto
    with Cons.prems(1) have "b \<in> set bs" by simp
    from Cons.IH [OF this Cons.prems(2)] Inr show ?thesis by simp
  qed
qed

lemma line_texts_ok:
  "\<forall>b \<in> set bs. BlockType b = ''LINE'' \<longrightarrow> Text b \<noteq> None \<Longrightarrow>
   line_texts bs = Inr (map (\<lambda>b. the (Text b)) (filter (\<lambda>b. BlockType b = ''LINE'') bs))"
  by (induction bs) auto

lemma line_texts_Page:
  "line_texts (map (\<lambda>b. b\<lparr>Page := f b\<rparr>) bs) = line_texts bs"
  by (induction bs) (auto split: option.splits)

lemma join_newline: "join sep (t # ts) = t @ concat (map (\<lambda>u. sep @ u) ts)"
  by (induction ts arbitrary: t) auto

section \<open>The transcript (C5)\<close>

text \<open>
  C5. When every LINE block of the response carries a text, \<open>get_transcript\<close> returns the
  texts of the LINE blocks in the order of the response list: the first text, then for each
  later one a single newline and the text, so nothing follows the last text. The page
  numbers of the blocks play no part: any relabelling of them gives the same transcript.
  The function reads the response only, never the parsed tree.
\<close>

theorem transcript_is_joined_line_texts:
  assumes "\<forall>b \<in> set (Blocks result). BlockType b = ''LINE'' \<longrightarrow> Text b \<noteq> None"
  shows "get_transcript result =
           Inr (case map (\<lambda>b. the (Text b)) (filter (\<lambda>b. BlockType b = ''LINE'') (Blocks result)) of
                  [] \<Rightarrow> []
                | t # ts \<Rightarrow> t @ concat (map (\<lambda>u. CHR 0x0A # u) ts))
         \<and> get_transcript (result\<lparr>Blocks := map (\<lambda>b. b\<lparr>Page := f b\<rparr>) (Blocks result)\<rparr>)
             = get_transcript result"
proof -
  let ?ts = "map (\<lambda>b. the (Text b)) (filter (\<lambda>b. BlockType b = ''LINE'') (Blocks result))"
  have "get_transcript result = Inr (join [CHR 0x0A] ?ts)"
    using line_texts_ok [OF assms] by (simp add: get_transcript_def)
  moreover have "join [CHR 0x0A] ?ts = (case ?ts of [] \<Rightarrow> [] | t # ts \<Rightarrow> t @ concat (map (\<lambda>u. CHR 0x0A # u) ts))"
    by (cases ?ts) (simp_all add: join_newline del: join.simps(3))
  ultimately show ?thesis
    by (simp add: get_transcript_def line_texts_Page)
qed

theorem transcript_is_joined_line_texts_witness:
  "get_transcript \<lparr>Blocks = [sample_page, sample_line, sample_word,
       sample_line\<lparr>BlockId := ''l2'', Page := Some 2, Text := Some ''World''\<rparr>]\<rparr>
     = Inr (''Hello'' @ [CHR 0x0A] @ ''World'')"
  using transcript_is_joined_line_texts [of "\<lparr>Blocks = [sample_page, sample_line, sample_word,
       sample_line\<lparr>BlockId := ''l2'', Page := Some 2, Text := Some ''World''\<rparr>]\<rparr>"]
  by (simp add: sample_defs)

section \<open>Dangling word references (C6)\<close>

text \<open>
  C6. When a word identifier matches no block of the response, \<open>get_block_by_id\<close> returns
  \<open>None\<close> (it has no way to raise), the loop over a line's identifiers gives the very result,
  error or dictionary, that it gives with the identifier struck from the list, the
  identifier is no key of the parsed line's \<open>Words\<close>, and every identifier of the first
  relationship group that does resolve to a block is a key of \<open>Words\<close>, bound to that block's
  entry.
\<close>

theorem dangling_word_reference_is_skipped:
  assumes "word_id \<notin> BlockId ` set (Blocks result)"
  shows "get_block_by_id result word_id = None
       \<and> parse_words result ids ws = parse_words result (removeAll word_id ids) ws
       \<and> (parse_block block result = Inr bd \<longrightarrow> word_id \<notin> fst ` set (Words bd))
       \<and> (parse_block block result = Inr bd \<and> first_group_ids block = Inr ids'
            \<and> w \<in> set ids' \<and> get_block_by_id result w = Some wb
          \<longrightarrow> (\<exists>wd. word_entry wb = Inr wd \<and> map_of (Words bd) w = Some wd))"
proof -
  have absent: "get_block_by_id result word_id = None"
    using assms by (simp add: get_block_by_id_def find_block_None_iff)
  have skipped: "parse_words result ids ws = parse_words result (removeAll word_id ids) ws"
    using parse_words_removeAll [OF absent] by simp
  have omitted: "word_id \<notin> fst ` set (Words bd)" if "parse_block block result = Inr bd"
  proof -
    from parse_block_InrD [OF that] obtain js
      where "parse_words result js [] = Inr (Words bd)" by blast
    from parse_words_keys [OF this] absent show ?thesis by auto
  qed
  have kept: "\<exists>wd. word_entry wb = Inr wd \<and> map_of (Words bd) w = Some wd"
    if "parse_block block result = Inr bd" and "first_group_ids block = Inr ids'"
      and "w \<in> set ids'" and "get_block_by_id result w = Some wb"
  proof -
    from parse_block_InrD [OF that(1)] that(2)
    have "parse_words result ids' [] = Inr (Words bd)" by auto
    from parse_words_resolved [OF this that(3) that(4)] show ?thesis .
  qed
  from absent skipped omitted kept show ?thesis by blast
qed

theorem dangling_word_reference_is_skipped_witness:
  "''w0'' \<notin> BlockId ` set (Blocks \<lparr>Blocks = [sample_page, two_refs_line, sample_word]\<rparr>)
   \<and> get_block_by_id \<lparr>Blocks = [sample_page, two_refs_line, sample_word]\<rparr> ''w0'' = None
   \<and> (\<exists>bd wd. parse_block two_refs_line \<lparr>Blocks = [sample_page, two_refs_line, sample_word]\<rparr> = Inr bd
         \<and> ''w0'' \<notin> fst ` set (Words bd) 
         \<and> word_entry sample_word = Inr wd \<and> map_of (Words bd) ''w1'' = Some wd)"
proof -
  let ?r = "\<lparr>Blocks = [sample_page, two_refs_line, sample_word]\<rparr>"
  have h: "''w0'' \<notin> BlockId ` set (Blocks ?r)"
    by (simp add: sample_defs two_refs_line_def)
  have ids: "first_group_ids two_refs_line = Inr [''w0'', ''w1'']"
    by (simp add: first_group_ids_def two_refs_line_def)
  have w1: "get_block_by_id ?r ''w1'' = Some sample_word"
    by (simp add: get_block_by_id_def sample_defs two_refs_line_def)
  obtain bd where bd: "parse_block two_refs_line ?r = Inr bd"
    by (simp add: parse_block_def first_group_ids_def get_block_by_id_def word_entry_def
        sample_defs two_refs_line_def)
  from dangling_word_reference_is_skipped [OF h, of "[]" "[]" two_refs_line bd "[''w0'', ''w1'']" "''w1''" sample_word]
    bd ids w1 h
  show ?thesis by simp
qed

section \<open>Lines without relationships (C7)\<close>



section \<open>An empty list of relationships (C8)\<close>

text \<open>
  C8. When the key \<open>Relationships\<close> is present and its list is empty, taking the first
  group raises \<open>IndexError\<close>: \<open>parse_block\<close> fails for every such block, with
  \<open>IndexError\<close> when the block carries the confidence, text and geometry that are read
  before, and so do the step of \<open>parse_results\<close> for such a LINE block and
  \<open>parse_results\<close> on any response that holds one. Of the two ways a block can
  have no relationship group, only the absent key takes the default \<open>[{}]\<close> and gives the
  line with an empty \<open>Words\<close> dictionary.
\<close>

theorem empty_relationships_list_raises:
  "(Relationships block = Some [] \<longrightarrow>
      first_group_ids block = Inl IndexError \<and> (\<exists>e. parse_block block result = Inl e))
   \<and> (Relationships block = Some [] \<and> Confidence block \<noteq> None \<and> Text block \<noteq> None
        \<and> Geometry block \<noteq> None \<longrightarrow> parse_block block result = Inl IndexError)
   \<and> (Relationships block = Some [] \<and> BlockType block = ''LINE'' \<longrightarrow>
        (\<exists>e. parse_results_step result rd block = Inl e))
   \<and> (Relationships block = Some [] \<and> BlockType block = ''LINE'' \<and> block \<in> set (Blocks result) \<longrightarrow>
        (\<exists>e. parse_results result = Inl e))
   \<and> (Relationships block = None \<and> Confidence block \<noteq> None \<and> Text block \<noteq> None
        \<and> Geometry block \<noteq> None \<longrightarrow>
        first_group_ids block = Inr [] \<and> (\<exists>bd. parse_block block result = Inr bd \<and> Words bd = []))"
proof -
  have fails: "\<exists>e. parse_block block result = Inl e" if "Relationships block = Some []"
    using that by (auto simp: parse_block_def first_group_ids_def split: option.splits)
  have step: "\<exists>e. parse_results_step result rd' block = Inl e"
    if "Relationships block = Some []" and "BlockType block = ''LINE''" for rd'
    using fails [OF that(1)] that(2) by (auto simp: parse_results_step_def)
  have whole: "\<exists>e. parse_results result = Inl e"
    if "Relationships block = Some []" and "BlockType block = ''LINE''"
      and "block \<in> set (Blocks result)"
    unfolding parse_results_def
    by (rule loop_fails [OF that(3)]) (rule step [OF that(1) that(2)])
  have a: "Relationships block = Some [] \<longrightarrow>
      first_group_ids block = Inl IndexError \<and> (\<exists>e. parse_block block result = Inl e)"
    using fails by (simp add: first_group_ids_def)
  have b: "Relationships block = Some [] \<and> Confidence block \<noteq> None \<and> Text block \<noteq> None
        \<and> Geometry block \<noteq> None \<longrightarrow> parse_block block result = Inl IndexError"
    by (auto simp: parse_block_def first_group_ids_def)
  have c: "Relationships block = None \<and> Confidence block \<noteq> None \<and> Text block \<noteq> None
        \<and> Geometry block \<noteq> None \<longrightarrow>
        first_group_ids block = Inr [] \<and> (\<exists>bd. parse_block block result = Inr bd \<and> Words bd = [])"
    by (auto simp: parse_block_def first_group_ids_def)
  from a b c step whole show ?thesis by blast
qed

theorem empty_relationships_list_raises_witness:
  "parse_block (sample_line\<lparr>Relationships := Some []\<rparr>) sample_result = Inl IndexError
   \<and> parse_results_step sample_result [] (sample_line\<lparr>Relationships := Some []\<rparr>) = Inl IndexError
   \<and> parse_results \<lparr>Blocks = [sample_page, sample_line\<lparr>Relationships := Some []\<rparr>]\<rparr> = Inl IndexError
   \<and> (\<exists>bd. parse_block (sample_line\<lparr>Relationships := None\<rparr>) sample_result = Inr bd \<and> Words bd = [])"
proof -
  let ?b = "sample_line\<lparr>Relationships := Some []\<rparr>"
  let ?r = "\<lparr>Blocks = [sample_page, ?b]\<rparr>"
  have h: "Relationships ?b = Some [] \<and> Confidence ?b \<noteq> None \<and> Text ?b \<noteq> None
      \<and> Geometry ?b \<noteq> None \<and> BlockType ?b = ''LINE'' \<and> ?b \<in> set (Blocks ?r)"
    by (simp add: sample_line_def)
  have h': "Relationships (sample_line\<lparr>Relationships := None\<rparr>) = None
      \<and> Confidence (sample_line\<lparr>Relationships := None\<rparr>) \<noteq> None
      \<and> Text (sample_line\<lparr>Relationships := None\<rparr>) \<noteq> None
      \<and> Geometry (sample_line\<lparr>Relationships := None\<rparr>) \<noteq> None"
    by (simp add: sample_line_def)
  from empty_relationships_list_raises [of ?b sample_result "[]"] h
  have 1: "parse_block ?b sample_result = Inl IndexError" by blast
  from 1 h have 2: "parse_results_step sample_result [] ?b = Inl IndexError"
    by (simp add: parse_results_step_def)
  have 3: "parse_results ?r = Inl IndexError"
    by (simp add: parse_results_def parse_results_step_def parse_block_def first_group_ids_def
        page_number_def sample_defs)
  from empty_relationships_list_raises [of "sample_line\<lparr>Relationships := None\<rparr>" sample_result "[]"] h'
  have 4: "\<exists>bd. parse_block (sample_line\<lparr>Relationships := None\<rparr>) sample_result = Inr bd \<and> Words bd = []"
    by blast
  from 1 2 3 4 show ?thesis by blast
qed

section \<open>Only the first relationship group (C10)\<close>

text \<open>
  C10. Of a block's relationship groups only the first is read: the identifiers looped over
  are those of the first group, the parsed line is the one obtained when every later group is
  deleted, and each key of its \<open>Words\<close> dictionary is an identifier of the first group.
\<close>

theorem only_first_relationship_group_is_read:
  assumes "Relationships block = Some (g # gs)"
  shows "first_group_ids block = Inr (case Ids g of None \<Rightarrow> [] | Some ids \<Rightarrow> ids)
       \<and> parse_block block result = parse_block (block\<lparr>Relationships := Some [g]\<rparr>) result
       \<and> (parse_block block result = Inr bd \<longrightarrow>
            fst ` set (Words bd) \<subseteq> set (case Ids g of None \<Rightarrow> [] | Some ids \<Rightarrow> ids))"
proof -
  have ids: "first_group_ids block = Inr (case Ids g of None \<Rightarrow> [] | Some ids \<Rightarrow> ids)"
    using assms by (simp add: first_group_ids_def)
  have same: "parse_block block result = parse_block (block\<lparr>Relationships := Some [g]\<rparr>) result"
    using assms by (simp add: parse_block_def first_group_ids_def split: option.splits sum.splits)
  have sub: "fst ` set (Words bd) \<subseteq> set (case Ids g of None \<Rightarrow> [] | Some ids \<Rightarrow> ids)"
    if "parse_block block result = Inr bd"
  proof -
    from parse_block_InrD [OF that] ids
    have "parse_words result (case Ids g of None \<Rightarrow> [] | Some ids \<Rightarrow> ids) [] = Inr (Words bd)"
      by auto
    from parse_words_keys [OF this] show ?thesis by auto
  qed
  from ids same sub show ?thesis by blast
qed

theorem only_first_relationship_group_is_read_witness:
  "get_block_by_id two_groups_result ''w2'' = Some (sample_word\<lparr>BlockId := ''w2''\<rparr>)
   \<and> (\<exists>bd. parse_block two_groups_line two_groups_result = Inr bd
         \<and> map fst (Words bd) = [''w1''] \<and> ''w2'' \<notin> fst ` set (Words bd))"
proof -
  have r: "Relationships two_groups_line =
      Some (\<lparr>Type = Some ''CHILD'', Ids = Some [''w1'']\<rparr> # [\<lparr>Type = Some ''CHILD'', Ids = Some [''w2'']\<rparr>])"
    by (simp add: two_groups_line_def sample_line_def)
  have w2: "get_block_by_id two_groups_result ''w2'' = Some (sample_word\<lparr>BlockId := ''w2''\<rparr>)"
    by (simp add: get_block_by_id_def two_groups_result_def two_groups_line_def sample_defs)
  obtain bd where bd: "parse_block two_groups_line two_groups_result = Inr bd"
    and keys: "map fst (Words bd) = [''w1'']"
    by (simp add: parse_block_def first_group_ids_def get_block_by_id_def word_entry_def
        two_groups_result_def two_groups_line_def sample_defs)
  from only_first_relationship_group_is_read [OF r, of two_groups_result bd] bd
  have "''w2'' \<notin> fst ` set (Words bd)" by auto
  with w2 bd keys show ?thesis by (intro conjI exI [of _ bd])
qed








section \<open>The default page (C9)\<close>









section \<open>Word entries and the blocks they come from (C2)\<close>








section \<open>A PAGE block after a line of its page (C1)\<close>

text \<open>
  C1. The claim asks that a PAGE block creates the entry of its page only when it is
  missing, so that lines stored under the page before are kept. The PAGE branch of
  \<open>parse_results\<close> assigns the empty dictionary without looking (the LINE branch does test
  \<open>not in\<close>). On \<open>line_first_result\<close>, where line \<open>l1\<close> of page 1 comes before the PAGE
  block of page 1, the tree holds \<open>l1\<close> under page 1 after the first two blocks, and the
  returned tree has page 1 empty: the line is lost.
\<close>

theorem page_block_after_line_empties_page:
  "(\<exists>bd. parse_results_loop line_first_result [sample_line, sample_word] [] = Inr [(1, [(''l1'', bd)])])
   \<and> parse_results line_first_result = Inr [(1, [])]"
  by (simp add: line_first_result_def parse_results_def parse_results_step_def page_number_def
      parse_block_def first_group_ids_def get_block_by_id_def word_entry_def sample_defs)

section \<open>The coordinates of a box (C3)\<close>




section \<open>The title attribute (C4)\<close>


end
